theory Spec2Isabelle
  imports Main
begin

section \<open>CommandLock (bin/command/CommandLock.js)\<close>

text \<open>
  Errors of the JavaScript code are values. \<open>TypeError\<close> is what reading a property of
  \<open>null\<close> or \<open>undefined\<close> raises (\<open>message.guild.id\<close> outside a guild,
  \<open>options.name\<close> when no options object was passed); \<open>Error msg\<close> is an explicit
  \<open>throw new Error(msg)\<close>.
\<close>

datatype error = TypeError | Error string

text \<open>
  The part of a message the lock reads: \<open>message.guild.id\<close>, a string. A message
  outside a guild has \<open>guild = None\<close>.
\<close>

record Guild =
  id' :: string

record Message =
  guild :: "Guild option"

text \<open>
  JavaScript values, as far as the lock meets them: the elements of \<open>args\<close>
  (\<open>any[]\<close>), and what a property read returns. \<open>Inherited k\<close> is the value of the
  property \<open>k\<close> of \<open>Object.prototype\<close>: a function, or for \<open>__proto__\<close> the
  prototype object itself. \<open>is_truthy\<close> is the conversion to boolean.
\<close>

datatype any = Undefined | Bool bool | Num int | Str string | Inherited string

type_synonym args = "any list"

definition is_truthy :: "any \<Rightarrow> bool" where
  "is_truthy v =
     (case v of Undefined \<Rightarrow> False | Bool b \<Rightarrow> b | Num n \<Rightarrow> n \<noteq> 0 | Str s \<Rightarrow> s \<noteq> []
      | Inherited k \<Rightarrow> True)"

text \<open>
  The two fields the constructor creates: \<open>siblings\<close> and \<open>_locks\<close> (here \<open>locks\<close>).
  \<open>_locks\<close> is a plain object \<open>{}\<close>: \<open>locks\<close> holds its own properties, and its
  prototype is \<open>Object.prototype\<close>, whose property names are listed here.
\<close>

record CommandLock =
  siblings :: "string list"
  locks :: "string \<rightharpoonup> bool"

definition Object_prototype :: "string list" where
  "Object_prototype =
     [''constructor'', ''__defineGetter__'', ''__defineSetter__'', ''hasOwnProperty'',
      ''__lookupGetter__'', ''__lookupSetter__'', ''isPrototypeOf'', ''propertyIsEnumerable'',
      ''toString'', ''valueOf'', ''__proto__'', ''toLocaleString'']"

text \<open>
  \<open>obj[k]\<close>: the own property when there is one, otherwise the property inherited from
  \<open>Object.prototype\<close>, otherwise \<open>undefined\<close>.
\<close>

definition prop_get :: "(string \<rightharpoonup> bool) \<Rightarrow> string \<Rightarrow> any" where
  "prop_get own k =
     (case own k of
        Some b \<Rightarrow> Bool b
      | None \<Rightarrow> if k \<in> set Object_prototype then Inherited k else Undefined)"

text \<open>
  \<open>obj[k] = true\<close>: writes the own property. For \<open>k = __proto__\<close> without an own
  property of that name the assignment runs the setter inherited from
  \<open>Object.prototype\<close>, which ignores a value that is not an object: nothing is stored.
\<close>

definition prop_set_true :: "(string \<rightharpoonup> bool) \<Rightarrow> string \<Rightarrow> (string \<rightharpoonup> bool)" where
  "prop_set_true own k = (if k = ''__proto__'' \<and> own k = None then own else own(k \<mapsto> True))"

text \<open>\<open>delete obj[k]\<close>: removes the own property, if any.\<close>

definition prop_delete :: "(string \<rightharpoonup> bool) \<Rightarrow> string \<Rightarrow> (string \<rightharpoonup> bool)" where
  "prop_delete own k = own(k := None)"

text \<open>\<open>constructor(...siblings)\<close>: the rest parameter is the list of the arguments, in order.\<close>

definition CommandLock_new :: "string list \<Rightarrow> CommandLock" where
  "CommandLock_new sibs = \<lparr>siblings = sibs, locks = Map.empty\<rparr>"

text \<open>
  Lock instances are objects: a command and its caller hold references to them. The state
  of the program is the heap of lock instances together with the host's pending timers
  (\<open>setTimeout\<close> / \<open>clearTimeout\<close>); a pending timer records its delay and the call
  \<open>free\<close> on a lock and a scope that its callback would make.
\<close>

type_synonym ref = nat

record Timer =
  delay :: nat
  target :: ref
  scope :: string

record World =
  heap :: "ref \<Rightarrow> CommandLock"
  timers :: "Timer list"

text \<open>
  The methods, with the receiver \<open>this\<close> as a reference. Each returns what the call
  returns (or the error it throws) and the world after the call.
  \<^verbatim>\<open>lock(message, args) { this._locks[message.guild.id] = true; }\<close>
\<close>

definition lock :: "ref \<Rightarrow> Message \<Rightarrow> args \<Rightarrow> World \<Rightarrow> (error + unit) \<times> World" where
  "lock this message as w =
     (case guild message of
        None \<Rightarrow> (Inl TypeError, w)
      | Some g \<Rightarrow>
          (Inr (),
           w\<lparr>heap := (heap w)(this := (heap w this)\<lparr>locks := prop_set_true (locks (heap w this)) (id' g)\<rparr>)\<rparr>))"

text \<open>
  \<^verbatim>\<open>isLocked(message, args) { return this._locks[message.guild.id] || false; }\<close>
  \<open>x || false\<close> is \<open>x\<close> when \<open>x\<close> is truthy and \<open>false\<close> otherwise.
\<close>

definition isLocked :: "ref \<Rightarrow> Message \<Rightarrow> args \<Rightarrow> World \<Rightarrow> (error + any) \<times> World" where
  "isLocked this message as w =
     (case guild message of
        None \<Rightarrow> (Inl TypeError, w)
      | Some g \<Rightarrow>
          (Inr (let v = prop_get (locks (heap w this)) (id' g)
                in if is_truthy v then v else Bool False), w))"

text \<open>\<^verbatim>\<open>free(message, args) { delete this._locks[message.guild.id]; }\<close>\<close>

definition free :: "ref \<Rightarrow> Message \<Rightarrow> args \<Rightarrow> World \<Rightarrow> (error + unit) \<times> World" where
  "free this message as w =
     (case guild message of
        None \<Rightarrow> (Inl TypeError, w)
      | Some g \<Rightarrow>
          (Inr (),
           w\<lparr>heap := (heap w)(this := (heap w this)\<lparr>locks := prop_delete (locks (heap w this)) (id' g)\<rparr>)\<rparr>))"

text \<open>
  \<^verbatim>\<open>getError(lang, message, args) {
    return Lang_1.Lang.res(lang, BaseStrings_1.BaseStrings.DISPATCHER_ERR_COMMAND_LOCKED); }\<close>
  The modules \<open>Lang\<close> and \<open>BaseStrings\<close> are not among the sources: the function
  \<open>Lang.res\<close> and the resource id are parameters.
\<close>

record Lang =
  res :: "string \<Rightarrow> string \<Rightarrow> string"

record BaseStrings =
  DISPATCHER_ERR_COMMAND_LOCKED :: string

definition getError ::
  "Lang \<Rightarrow> BaseStrings \<Rightarrow> ref \<Rightarrow> string \<Rightarrow> Message \<Rightarrow> args \<Rightarrow> World \<Rightarrow> (error + string) \<times> World" where
  "getError L B this lang message as w = (Inr (res L lang (DISPATCHER_ERR_COMMAND_LOCKED B)), w)"

text \<open>
  The state of a (lock, scope) pair, as the specification names it: \<open>Locked\<close> when
  \<open>_locks\<close> holds \<open>true\<close> for the scope, \<open>Unlocked\<close> otherwise.
\<close>

datatype LockState = Unlocked | Locked

definition state_of :: "World \<Rightarrow> ref \<Rightarrow> string \<Rightarrow> LockState" where
  "state_of w this s = (if locks (heap w this) s = Some True then Locked else Unlocked)"

text \<open>Concrete inputs on which the theorems below are exercised.\<close>

definition message_in :: "string \<Rightarrow> Message" where
  "message_in s = \<lparr>guild = Some \<lparr>id' = s\<rparr>\<rparr>"

definition fresh_world :: "string list \<Rightarrow> World" where
  "fresh_world sibs = \<lparr>heap = (\<lambda>r. CommandLock_new sibs), timers = []\<rparr>"










section \<open>Bot (src/event/Event.ts)\<close>

text \<open>
  The options object of the constructor. A property that is absent is \<open>None\<close>.
  \<open>options.config\<close> is an object with the token and the owner ids.
\<close>

record Config =
  config_token :: string
  owner :: "string list"

record BotOptions =
  name :: "string option"
  token :: "string option"
  commandsDir :: "string option"
  statusText :: "string option"
  selfbot :: "bool option"
  version :: "string option"
  config :: "Config option"

text \<open>The fields of \<open>this\<close> that the constructor assigns before its assertions.\<close>

record BotFields =
  this_name :: string
  this_token :: "string option"
  this_commandsDir :: "string option"
  this_statusText :: string
  this_selfbot :: bool
  this_version :: string
  this_config :: "Config option"

text \<open>
  JavaScript truthiness of an optional string: \<open>undefined\<close> and the empty string are
  falsy. \<open>x || d\<close> is \<open>x\<close> when \<open>x\<close> is truthy and \<open>d\<close> otherwise.
\<close>

definition truthy :: "string option \<Rightarrow> bool" where
  "truthy v = (case v of None \<Rightarrow> False | Some s \<Rightarrow> s \<noteq> [])"

definition or_default :: "string option \<Rightarrow> string \<Rightarrow> string" where
  "or_default v d = (case v of None \<Rightarrow> d | Some s \<Rightarrow> if s \<noteq> [] then s else d)"

text \<open>
  \<^verbatim>\<open>constructor(options = null) {
    super();
    this.name = options.name || 'botname';
    this.token = options.token;
    this.commandsDir = options.commandsDir;
    this.statusText = options.statusText || '@mention help';
    this.selfbot = options.selfbot || false;
    this.version = options.version || '0.0.0';
    this.config = options.config || null;
    if (!this.token) throw new Error('You must provide a token for the bot.');
    if (!this.commandsDir) throw new Error('You must provide a directory to load commands from via commandDir');
    if (!this.config) throw new Error('You must provide a config containing token and owner ids.');
    ... }\<close>
  The model ends after the assertions: the storages, loaders, registry and dispatcher
  that the constructor creates next are not among the sources.
\<close>

definition Bot_constructor :: "BotOptions option \<Rightarrow> error + BotFields" where
  "Bot_constructor options =
     (case options of
        None \<Rightarrow> Inl TypeError
      | Some opts \<Rightarrow>
          (let this = \<lparr>this_name = or_default (name opts) ''botname'',
                       this_token = token opts,
                       this_commandsDir = commandsDir opts,
                       this_statusText = or_default (statusText opts) ''@mention help'',
                       this_selfbot = (case selfbot opts of None \<Rightarrow> False | Some b \<Rightarrow> b \<or> False),
                       this_version = or_default (version opts) ''0.0.0'',
                       this_config = config opts\<rparr>
           in if \<not> truthy (this_token this)
                then Inl (Error ''You must provide a token for the bot.'')
              else if \<not> truthy (this_commandsDir this)
                then Inl (Error ''You must provide a directory to load commands from via commandDir'')
              else if this_config this = None
                then Inl (Error ''You must provide a config containing token and owner ids.'')
              else Inr this))"

text \<open>
  \<open>setDefaultSetting\<close> works on the bot's own storage and on the collection of guild
  storages. The classes \<open>LocalStorage\<close>, \<open>GuildStorage\<close> and
  \<open>GuildStorageRegistry\<close> are not among the sources: the storage types are type
  parameters and the four methods the function calls are parameters. The item
  \<open>defaultGuildSettings\<close> is an object from setting keys to values; \<open>getItem\<close>
  returning \<open>null\<close> is \<open>None\<close>. The registry is a collection of (guild id, storage)
  entries, which \<open>forEach\<close> visits in order; each storage is a value of its own.
\<close>

type_synonym settings = "string \<rightharpoonup> string"

record ('s, 'g) StorageMethods =
  getItem :: "string \<Rightarrow> 's \<Rightarrow> settings option"
  setItem :: "string \<Rightarrow> settings \<Rightarrow> 's \<Rightarrow> 's"
  settingExists :: "string \<Rightarrow> 'g \<Rightarrow> bool"
  setSetting :: "string \<Rightarrow> string \<Rightarrow> 'g \<Rightarrow> 'g"

record ('s, 'g) Bot =
  storage :: 's
  guildStorages :: "(string \<times> 'g) list"

text \<open>
  \<^verbatim>\<open>setDefaultSetting(key, value) {
    let defaults = this.storage.getItem('defaultGuildSettings');
    if (!defaults) return;
    defaults[key] = value;
    this.storage.setItem('defaultGuildSettings', defaults);
    this.guildStorages.forEach(guild =>
      { if (!guild.settingExists(key)) guild.setSetting(key, value); });
  }\<close>
\<close>

definition setDefaultSetting ::
  "('s, 'g) StorageMethods \<Rightarrow> string \<Rightarrow> string \<Rightarrow> ('s, 'g) Bot \<Rightarrow> ('s, 'g) Bot" where
  "setDefaultSetting M key val this =
     (case getItem M ''defaultGuildSettings'' (storage this) of
        None \<Rightarrow> this
      | Some defaults \<Rightarrow>
          this\<lparr>storage := setItem M ''defaultGuildSettings'' (defaults(key \<mapsto> val)) (storage this),
              guildStorages :=
                map (\<lambda>(gid, guild).
                       (gid, if \<not> settingExists M key guild then setSetting M key val guild else guild))
                    (guildStorages this)\<rparr>)"

text \<open>
  A concrete pair of storages on which the theorem about \<open>setDefaultSetting\<close> is
  exercised: both kinds of storage are key-value maps.
\<close>

definition map_storages :: "(string \<rightharpoonup> settings, settings) StorageMethods" where
  "map_storages =
     \<lparr>getItem = (\<lambda>k s. s k),
      setItem = (\<lambda>k v s. s(k \<mapsto> v)),
      settingExists = (\<lambda>k g. g k \<noteq> None),
      setSetting = (\<lambda>k v g. g(k \<mapsto> v))\<rparr>"





definition options_with ::
  "string option \<Rightarrow> string option \<Rightarrow> Config option \<Rightarrow> BotOptions" where
  "options_with t d c =
     \<lparr>name = None, token = t, commandsDir = d, statusText = None, selfbot = None,
      version = None, config = c\<rparr>"

definition some_config :: Config where
  "some_config = \<lparr>config_token = ''abc'', owner = [''1'']\<rparr>"


section \<open>The lock as a state machine\<close>

lemma lock_world:
  "guild m = Some g \<Longrightarrow>
   lock this m as w =
     (Inr (), w\<lparr>heap := (heap w)(this := (heap w this)\<lparr>locks := prop_set_true (locks (heap w this)) (id' g)\<rparr>)\<rparr>)"
  by (simp add: lock_def)

lemma free_world:
  "guild m = Some g \<Longrightarrow>
   free this m as w =
     (Inr (), w\<lparr>heap := (heap w)(this := (heap w this)\<lparr>locks := prop_delete (locks (heap w this)) (id' g)\<rparr>)\<rparr>)"
  by (simp add: free_def)

lemma isLocked_value:
  "guild m = Some g \<Longrightarrow>
   isLocked this m as w =
     (Inr (if is_truthy (prop_get (locks (heap w this)) (id' g))
           then prop_get (locks (heap w this)) (id' g) else Bool False), w)"
  by (simp add: isLocked_def Let_def)

lemma isLocked_same_world: "snd (isLocked this m as w) = w"
  by (simp add: isLocked_def split: option.splits)



lemma prop_get_set_ordinary:
  "k \<noteq> ''__proto__'' \<Longrightarrow> prop_get (prop_set_true own k) k = Bool True"
  by (simp add: prop_get_def prop_set_true_def)

lemma prop_set_other: "k' \<noteq> k \<Longrightarrow> prop_set_true own k k' = own k'"
  by (simp add: prop_set_true_def)

lemma prop_delete_other: "k' \<noteq> k \<Longrightarrow> prop_delete own k k' = own k'"
  by (simp add: prop_delete_def)

lemma prop_get_other:
  "k' \<noteq> k \<Longrightarrow> prop_get (prop_set_true own k) k' = prop_get own k'"
  "k' \<noteq> k \<Longrightarrow> prop_get (prop_delete own k) k' = prop_get own k'"
  by (simp_all add: prop_get_def prop_set_other prop_delete_other)




lemma free_absent_same_world:
  assumes "guild m = Some g" and "locks (heap w this) (id' g) = None"
  shows "snd (free this m as w) = w"
proof -
  have "prop_delete (locks (heap w this)) (id' g) = locks (heap w this)"
    using assms(2) by (simp add: prop_delete_def fun_upd_idem)
  then show ?thesis
    using assms(1) by (simp add: free_world)
qed



text \<open>
  For a guild id that is not the name of a property of \<open>Object.prototype\<close>, \<open>free\<close>
  leaves the scope \<open>Unlocked\<close> and \<open>isLocked\<close> returns \<open>false\<close> afterwards; on an
  \<open>Unlocked\<close> scope \<open>free\<close> changes no (lock, scope) state, no siblings and no timer.
\<close>

lemma free_ordinary_scope:
  assumes "guild m = Some g" and "guild m' = Some g'" and "id' g' = id' g"
    and "id' g \<notin> set Object_prototype"
  shows "fst (free this m as w) = Inr ()
       \<and> state_of (snd (free this m as w)) this (id' g) = Unlocked
       \<and> isLocked this m' as' (snd (free this m as w)) = (Inr (Bool False), snd (free this m as w))
       \<and> (state_of w this (id' g) = Unlocked \<longrightarrow>
            (\<forall>r s. state_of (snd (free this m as w)) r s = state_of w r s)
            \<and> (\<forall>r. siblings (heap (snd (free this m as w)) r) = siblings (heap w r))
            \<and> timers (snd (free this m as w)) = timers w)
       \<and> (locks (heap w this) (id' g) = None \<longrightarrow> snd (free this m as w) = w)"
proof -
  have 1: "fst (free this m as w) = Inr ()"
    using assms(1) by (simp add: free_world)
  have 2: "state_of (snd (free this m as w)) this (id' g) = Unlocked"
    using assms(1) by (simp add: free_world state_of_def prop_delete_def)
  have 3: "isLocked this m' as' (snd (free this m as w)) = (Inr (Bool False), snd (free this m as w))"
    using assms by (simp add: isLocked_value free_world prop_get_def prop_delete_def is_truthy_def)
  have 4: "state_of (snd (free this m as w)) r s = state_of w r s"
    if "state_of w this (id' g) = Unlocked" for r s
    using that assms(1) by (simp add: free_world state_of_def prop_delete_def split: if_splits)
  have 5: "siblings (heap (snd (free this m as w)) r) = siblings (heap w r)" for r
    using assms(1) by (simp add: free_world)
  have 6: "timers (snd (free this m as w)) = timers w"
    using assms(1) by (simp add: free_world)
  have 7: "locks (heap w this) (id' g) = None \<longrightarrow> snd (free this m as w) = w"
    using free_absent_same_world [OF assms(1)] by blast
  from 1 2 3 4 5 6 7 show ?thesis by blast
qed

text \<open>
  C3. The code departs from the claim at a guild id that names a property of
  \<open>Object.prototype\<close>: after \<open>lock\<close> and \<open>free\<close> in the scope \<open>toString\<close> the pair is
  recorded as \<open>Unlocked\<close>, yet \<open>isLocked\<close> returns the inherited function, a truthy
  value, and not \<open>false\<close>.
\<close>

theorem free_leaves_inherited_value:
  "state_of (snd (free 0 (message_in ''toString'') []
       (snd (lock 0 (message_in ''toString'') [] (fresh_world []))))) 0 ''toString'' = Unlocked
   \<and> fst (isLocked 0 (message_in ''toString'') []
        (snd (free 0 (message_in ''toString'') []
           (snd (lock 0 (message_in ''toString'') [] (fresh_world []))))))
       = Inr (Inherited ''toString'')
   \<and> is_truthy (Inherited ''toString'')"
  by (simp add: message_in_def fresh_world_def CommandLock_new_def lock_def free_def isLocked_def
      state_of_def prop_get_def prop_set_true_def prop_delete_def is_truthy_def Object_prototype_def)

text \<open>
  \<open>isLocked\<close> never changes the world. For a guild id that is not the name of a
  property of \<open>Object.prototype\<close> it returns \<open>true\<close> when the pair is \<open>Locked\<close> and
  \<open>false\<close> otherwise.
\<close>

lemma isLocked_ordinary_scope:
  "snd (isLocked this m as w) = w
   \<and> (guild m = Some g \<and> id' g \<notin> set Object_prototype \<longrightarrow>
        fst (isLocked this m as w) = Inr (Bool (state_of w this (id' g) = Locked)))"
  by (auto simp: isLocked_def state_of_def prop_get_def is_truthy_def Let_def split: option.splits)

text \<open>
  C4. The code departs from the claim at a guild id that names a property of
  \<open>Object.prototype\<close>: on a lock where the scope \<open>constructor\<close> is \<open>Unlocked\<close>,
  \<open>isLocked\<close> leaves the world as it is but returns the inherited function, a truthy
  value that is neither \<open>true\<close> nor \<open>false\<close>.
\<close>

theorem isLocked_unlocked_inherited_value:
  "state_of (fresh_world []) 0 ''constructor'' = Unlocked
   \<and> isLocked 0 (message_in ''constructor'') [] (fresh_world [])
       = (Inr (Inherited ''constructor''), fresh_world [])
   \<and> is_truthy (Inherited ''constructor'')"
  by (simp add: message_in_def fresh_world_def CommandLock_new_def isLocked_def
      state_of_def prop_get_def is_truthy_def Object_prototype_def)

text \<open>
  C5. For two distinct scope ids A and B on one lock, \<open>lock(A)\<close> and \<open>free(A)\<close> leave
  the state of (lock, B) and the answer of \<open>isLocked(B)\<close> unchanged.
\<close>

theorem distinct_scopes_independent:
  assumes "guild mA = Some gA" and "guild mB = Some gB" and "id' gA \<noteq> id' gB"
  shows "fst (isLocked this mB as' (snd (lock this mA as w))) = fst (isLocked this mB as' w)
       \<and> fst (isLocked this mB as' (snd (free this mA as w))) = fst (isLocked this mB as' w)
       \<and> state_of (snd (lock this mA as w)) this (id' gB) = state_of w this (id' gB)
       \<and> state_of (snd (free this mA as w)) this (id' gB) = state_of w this (id' gB)"
proof -
  have d: "id' gB \<noteq> id' gA"
    using assms(3) by simp
  show ?thesis
    using assms(1,2)
    by (simp add: isLocked_value lock_world free_world state_of_def
        prop_get_other [OF d] prop_set_other [OF d] prop_delete_other [OF d])
qed

theorem distinct_scopes_independent_witness:
  "guild (message_in ''1'') = Some \<lparr>id' = ''1''\<rparr>
   \<and> guild (message_in ''2'') = Some \<lparr>id' = ''2''\<rparr>
   \<and> ''1'' \<noteq> ''2''
   \<and> fst (isLocked 0 (message_in ''2'') [] (snd (lock 0 (message_in ''1'') [] (fresh_world []))))
       = Inr (Bool False)
   \<and> fst (isLocked 0 (message_in ''2'') []
        (snd (free 0 (message_in ''1'') [] (snd (lock 0 (message_in ''2'') [] (fresh_world []))))))
       = Inr (Bool True)"
proof -
  have g1: "guild (message_in ''1'') = Some \<lparr>id' = ''1''\<rparr>"
    by (simp add: message_in_def)
  have g2: "guild (message_in ''2'') = Some \<lparr>id' = ''2''\<rparr>"
    by (simp add: message_in_def)
  have d: "id' \<lparr>id' = ''1''\<rparr> \<noteq> id' \<lparr>id' = ''2''\<rparr>"
    by simp
  have u: "fst (isLocked 0 (message_in ''2'') [] (fresh_world [])) = Inr (Bool False)"
    by (simp add: isLocked_value [OF g2] fresh_world_def CommandLock_new_def prop_get_def
        Object_prototype_def is_truthy_def)
  have l: "fst (isLocked 0 (message_in ''2'') [] (snd (lock 0 (message_in ''2'') [] (fresh_world []))))
      = Inr (Bool True)"
    by (simp add: isLocked_value [OF g2] lock_world [OF g2] prop_get_set_ordinary is_truthy_def)
  note a = distinct_scopes_independent [OF g1 g2 d, of 0 "[]" "[]" "fresh_world []"]
  note b = distinct_scopes_independent [OF g1 g2 d, of 0 "[]" "[]"
      "snd (lock 0 (message_in ''2'') [] (fresh_world []))"]
  from a b g1 g2 u l show ?thesis by simp
qed

text \<open>
  A freshly constructed lock has exactly the sibling names passed to the constructor, in
  order, and records every scope as \<open>Unlocked\<close>; \<open>isLocked\<close> returns \<open>false\<close> for
  every guild id that is not the name of a property of \<open>Object.prototype\<close>.
\<close>

lemma fresh_lock_ordinary_scope:
  "siblings (CommandLock_new sibs) = sibs
   \<and> (heap w this = CommandLock_new sibs \<longrightarrow>
        (\<forall>s. state_of w this s = Unlocked)
        \<and> (\<forall>m g as. guild m = Some g \<and> id' g \<notin> set Object_prototype \<longrightarrow>
              isLocked this m as w = (Inr (Bool False), w)))"
  by (simp add: CommandLock_new_def state_of_def isLocked_value prop_get_def is_truthy_def)

text \<open>
  C8. The code departs from the claim at a guild id that names a property of
  \<open>Object.prototype\<close>: a freshly constructed lock has the sibling names passed to the
  constructor and records the scope \<open>toString\<close> as \<open>Unlocked\<close>, yet \<open>isLocked\<close>
  returns the inherited function, a truthy value, and not \<open>false\<close>.
\<close>

theorem fresh_lock_inherited_value:
  "siblings (heap (fresh_world [''ban'', ''kick'']) 0) = [''ban'', ''kick'']
   \<and> state_of (fresh_world [''ban'', ''kick'']) 0 ''toString'' = Unlocked
   \<and> isLocked 0 (message_in ''toString'') [] (fresh_world [''ban'', ''kick''])
       = (Inr (Inherited ''toString''), fresh_world [''ban'', ''kick''])
   \<and> is_truthy (Inherited ''toString'')"
  by (simp add: message_in_def fresh_world_def CommandLock_new_def isLocked_def
      state_of_def prop_get_def is_truthy_def Object_prototype_def)

section \<open>Sharing a lock between sibling commands\<close>










text \<open>
  C7. \<open>getError\<close> returns \<open>Lang.res\<close> of the language and the resource id of the
  "command is locked" message, never throws, and leaves the world as it is; two calls
  with the same language return the same string, whatever the receiver, the message,
  the arguments and the state of the locks.
\<close>

theorem getError_language_only:
  "getError L B this lang m as w = (Inr (res L lang (DISPATCHER_ERR_COMMAND_LOCKED B)), w)
   \<and> fst (getError L B this lang m as w) = fst (getError L B this' lang m' as' w')"
  by (simp add: getError_def)


section \<open>Timers\<close>




section \<open>Default settings\<close>

lemma setDefaultSetting_no_defaults:
  "getItem M ''defaultGuildSettings'' (storage this) = None \<Longrightarrow>
   setDefaultSetting M key val this = this"
  by (simp add: setDefaultSetting_def)

lemma setDefaultSetting_ids:
  "map fst (guildStorages (setDefaultSetting M key val this)) = map fst (guildStorages this)"
  by (auto simp: setDefaultSetting_def split: option.splits)

lemma setDefaultSetting_nth:
  assumes "getItem M ''defaultGuildSettings'' (storage this) = Some defaults"
    and "i < length (guildStorages this)"
  shows "snd (guildStorages (setDefaultSetting M key val this) ! i) =
     (if \<not> settingExists M key (snd (guildStorages this ! i))
      then setSetting M key val (snd (guildStorages this ! i))
      else snd (guildStorages this ! i))"
  using assms by (simp add: setDefaultSetting_def split: prod.splits)

text \<open>
  C9. When the bot storage has no item \<open>defaultGuildSettings\<close>, \<open>setDefaultSetting\<close>
  returns with the bot storage and every guild storage as they were. Otherwise the
  collection keeps its guild ids, a guild storage in which \<open>settingExists(key)\<close> holds
  is left exactly as it was, and a guild storage is changed only where
  \<open>settingExists(key)\<close> fails, by \<open>setSetting(key, value)\<close>.
\<close>

theorem setDefaultSetting_keeps_existing:
  "(getItem M ''defaultGuildSettings'' (storage this) = None \<longrightarrow>
      setDefaultSetting M key val this = this)
   \<and> map fst (guildStorages (setDefaultSetting M key val this)) = map fst (guildStorages this)
   \<and> (\<forall>i < length (guildStorages this).
        (settingExists M key (snd (guildStorages this ! i)) \<longrightarrow>
           snd (guildStorages (setDefaultSetting M key val this) ! i) = snd (guildStorages this ! i))
        \<and> (snd (guildStorages (setDefaultSetting M key val this) ! i) \<noteq> snd (guildStorages this ! i) \<longrightarrow>
             \<not> settingExists M key (snd (guildStorages this ! i))
             \<and> snd (guildStorages (setDefaultSetting M key val this) ! i)
                 = setSetting M key val (snd (guildStorages this ! i))))"
proof (cases "getItem M ''defaultGuildSettings'' (storage this)")
  case None
  then have "setDefaultSetting M key val this = this"
    by (rule setDefaultSetting_no_defaults)
  then show ?thesis by simp
next
  case (Some defaults)
  show ?thesis
    using Some by (simp add: setDefaultSetting_ids setDefaultSetting_nth [OF Some])
qed

theorem setDefaultSetting_keeps_existing_witness:
  "getItem map_storages ''defaultGuildSettings'' (storage \<lparr>storage = Map.empty,
       guildStorages = [(''1'', [''lang'' \<mapsto> ''en_us''])]\<rparr>) = None
   \<and> setDefaultSetting map_storages ''lang'' ''de''
        \<lparr>storage = Map.empty, guildStorages = [(''1'', [''lang'' \<mapsto> ''en_us''])]\<rparr>
       = \<lparr>storage = Map.empty, guildStorages = [(''1'', [''lang'' \<mapsto> ''en_us''])]\<rparr>
   \<and> settingExists map_storages ''lang'' [''lang'' \<mapsto> ''en_us'']
   \<and> \<not> settingExists map_storages ''lang'' Map.empty
   \<and> snd (guildStorages (setDefaultSetting map_storages ''lang'' ''de''
        \<lparr>storage = [''defaultGuildSettings'' \<mapsto> [''prefix'' \<mapsto> ''!'']],
         guildStorages = [(''1'', [''lang'' \<mapsto> ''en_us'']), (''2'', Map.empty)]\<rparr>) ! 0)
       = [''lang'' \<mapsto> ''en_us'']
   \<and> snd (guildStorages (setDefaultSetting map_storages ''lang'' ''de''
        \<lparr>storage = [''defaultGuildSettings'' \<mapsto> [''prefix'' \<mapsto> ''!'']],
         guildStorages = [(''1'', [''lang'' \<mapsto> ''en_us'']), (''2'', Map.empty)]\<rparr>) ! 1)
       = [''lang'' \<mapsto> ''de'']"
proof -
  have n: "getItem map_storages ''defaultGuildSettings'' (storage \<lparr>storage = Map.empty,
       guildStorages = [(''1'', [''lang'' \<mapsto> ''en_us''])]\<rparr>) = None"
    by (simp add: map_storages_def)
  have e: "settingExists map_storages ''lang'' [''lang'' \<mapsto> ''en_us'']"
    by (simp add: map_storages_def)
  have ne: "\<not> settingExists map_storages ''lang'' Map.empty"
    by (simp add: map_storages_def)
  note a = setDefaultSetting_keeps_existing [of map_storages
      "\<lparr>storage = Map.empty, guildStorages = [(''1'', [''lang'' \<mapsto> ''en_us''])]\<rparr>" "''lang''" "''de''"]
  note b = setDefaultSetting_keeps_existing [of map_storages
      "\<lparr>storage = [''defaultGuildSettings'' \<mapsto> [''prefix'' \<mapsto> ''!'']],
        guildStorages = [(''1'', [''lang'' \<mapsto> ''en_us'']), (''2'', Map.empty)]\<rparr>" "''lang''" "''de''"]
  have b0: "snd (guildStorages (setDefaultSetting map_storages ''lang'' ''de''
        \<lparr>storage = [''defaultGuildSettings'' \<mapsto> [''prefix'' \<mapsto> ''!'']],
         guildStorages = [(''1'', [''lang'' \<mapsto> ''en_us'']), (''2'', Map.empty)]\<rparr>) ! 0)
       = [''lang'' \<mapsto> ''en_us'']"
    using b e by simp
  have b1: "snd (guildStorages (setDefaultSetting map_storages ''lang'' ''de''
        \<lparr>storage = [''defaultGuildSettings'' \<mapsto> [''prefix'' \<mapsto> ''!'']],
         guildStorages = [(''1'', [''lang'' \<mapsto> ''en_us'']), (''2'', Map.empty)]\<rparr>) ! 1)
       = [''lang'' \<mapsto> ''de'']"
    by (simp add: setDefaultSetting_def map_storages_def)
  from a n e ne b0 b1 show ?thesis by simp
qed

section \<open>The assertions of the Bot constructor\<close>

text \<open>
  Without an options object (\<open>new Bot()\<close>, the parameter's default is \<open>null\<close>) the
  first property read throws before any assertion is reached.
\<close>

lemma Bot_constructor_no_options: "Bot_constructor None = Inl TypeError"
  by (simp add: Bot_constructor_def)

text \<open>
  C10, as stated, fails. With neither a token nor a commands directory, the error thrown
  is the one about the token, not the one about the directory; and with all three options
  provided but the token an empty string, the error about the token is thrown.
\<close>

theorem commandsDir_absent_other_error:
  "commandsDir (options_with None None (Some some_config)) = None
   \<and> Bot_constructor (Some (options_with None None (Some some_config)))
       = Inl (Error ''You must provide a token for the bot.'')
   \<and> Bot_constructor (Some (options_with None None (Some some_config)))
       \<noteq> Inl (Error ''You must provide a directory to load commands from via commandDir'')
   \<and> token (options_with (Some []) (Some ''commands'') (Some some_config)) = Some []
   \<and> Bot_constructor (Some (options_with (Some []) (Some ''commands'') (Some some_config)))
       = Inl (Error ''You must provide a token for the bot.'')"
  by (simp add: options_with_def Bot_constructor_def truthy_def)

text \<open>
  C10, amended. Given an options object, the constructor checks token, commandsDir and
  config in this order, and the first one that is missing (absent, or for the two
  strings empty) decides the error: without a token it throws \<open>You must provide a token
  for the bot.\<close>; with a token and without a commands directory it throws \<open>You must
  provide a directory to load commands from via commandDir\<close>; with both and without a
  config it throws \<open>You must provide a config containing token and owner ids.\<close>. With
  all three present none of these errors is thrown: the assertions pass.
\<close>

theorem Bot_constructor_assertions:
  "(\<not> truthy (token opts) \<longrightarrow>
      Bot_constructor (Some opts) = Inl (Error ''You must provide a token for the bot.''))
   \<and> (truthy (token opts) \<and> \<not> truthy (commandsDir opts) \<longrightarrow>
      Bot_constructor (Some opts)
        = Inl (Error ''You must provide a directory to load commands from via commandDir''))
   \<and> (truthy (token opts) \<and> truthy (commandsDir opts) \<and> config opts = None \<longrightarrow>
      Bot_constructor (Some opts)
        = Inl (Error ''You must provide a config containing token and owner ids.''))
   \<and> (truthy (token opts) \<and> truthy (commandsDir opts) \<and> config opts \<noteq> None \<longrightarrow>
      (\<exists>this. Bot_constructor (Some opts) = Inr this
         \<and> this_token this = token opts \<and> this_commandsDir this = commandsDir opts
         \<and> this_config this = config opts))"
  by (simp add: Bot_constructor_def Let_def)

theorem Bot_constructor_assertions_witness:
  "\<not> truthy (token (options_with None (Some ''commands'') (Some some_config)))
   \<and> Bot_constructor (Some (options_with None (Some ''commands'') (Some some_config)))
       = Inl (Error ''You must provide a token for the bot.'')
   \<and> truthy (token (options_with (Some ''abc'') None (Some some_config)))
   \<and> \<not> truthy (commandsDir (options_with (Some ''abc'') None (Some some_config)))
   \<and> Bot_constructor (Some (options_with (Some ''abc'') None (Some some_config)))
       = Inl (Error ''You must provide a directory to load commands from via commandDir'')
   \<and> config (options_with (Some ''abc'') (Some ''commands'') None) = None
   \<and> Bot_constructor (Some (options_with (Some ''abc'') (Some ''commands'') None))
       = Inl (Error ''You must provide a config containing token and owner ids.'')
   \<and> config (options_with (Some ''abc'') (Some ''commands'') (Some some_config)) \<noteq> None
   \<and> (\<exists>this. Bot_constructor (Some (options_with (Some ''abc'') (Some ''commands'') (Some some_config)))
         = Inr this)"
proof -
  have t: "\<And>d c. \<not> truthy (token (options_with None d c))"
    "\<And>d c. truthy (token (options_with (Some ''abc'') d c))"
    "\<And>t c. \<not> truthy (commandsDir (options_with t None c))"
    "\<And>t c. truthy (commandsDir (options_with t (Some ''commands'') c))"
    "\<And>t d c. config (options_with t d c) = c"
    by (simp_all add: options_with_def truthy_def)
  note a = Bot_constructor_assertions [of "options_with None (Some ''commands'') (Some some_config)"]
  note b = Bot_constructor_assertions [of "options_with (Some ''abc'') None (Some some_config)"]
  note c = Bot_constructor_assertions [of "options_with (Some ''abc'') (Some ''commands'') None"]
  note d = Bot_constructor_assertions [of "options_with (Some ''abc'') (Some ''commands'') (Some some_config)"]
  from a b c d t show ?thesis by auto
qed

end
